theory Spec2Isabelle
  imports Complex_Main
begin

section \<open>JavaScript values used by the client\<close>

text \<open>
  A JavaScript number that the client only copies and compares is a real; a string is a
  \<open>string\<close>. A string is truthy exactly when it is not empty.
\<close>

type_synonym number = real

definition truthy :: "string \<Rightarrow> bool" where
  "truthy s = (s \<noteq> [])"

text \<open>
  What the source raises. \<open>JsError m\<close> is \<open>new Error(m)\<close>; \<open>TypeError\<close> is the
  engine's error for reading a property of \<open>undefined\<close>; \<open>RangeError\<close> is what
  \<open>Date.prototype.toISOString\<close> raises on an invalid time value; \<open>TransportError\<close>
  is whatever the HTTP transport raises (a network failure, a status that is not 2xx);
  \<open>FsError\<close> is what \<open>fs.readFileSync\<close> raises.
\<close>

datatype js_error =
    JsError string
  | TypeError
  | RangeError
  | TransportError string
  | FsError string

datatype js_val = JStr string | JNum number | JBool bool

section \<open>Data model\<close>

text \<open>
  The fields of the daemon's torrent record that \<open>index.ts\<close> reads. The field \<open>size\<close>
  is written \<open>size_selected\<close>, since \<open>size\<close> is a constant of HOL.
\<close>

record Torrent =
  hash :: string
  name :: string
  state :: string
  added_on :: number
  progress :: number
  category :: string
  completion_on :: number
  save_path :: string
  upspeed :: number
  dlspeed :: number
  eta :: number
  priority :: number
  num_leechs :: number
  num_seeds :: number
  num_incomplete :: number
  num_complete :: number
  size_selected :: number
  total_size :: number
  uploaded :: number
  downloaded :: number
  ratio :: number

text \<open>
  \<open>TorrentState\<close> of \<open>@ctrl/shared-torrent\<close>: the normalized states. The member
  \<open>checking\<close> is written \<open>checking'\<close>, since \<open>checking\<close> is a keyword of Isabelle.
\<close>

datatype TorrentState = unknown | downloading | seeding | checking' | error | queued | paused

record NormalizedTorrent =
  id :: string
  name :: string
  stateMessage :: string
  state :: TorrentState
  dateAdded :: string
  isCompleted :: bool
  progress :: number
  label :: string
  dateCompleted :: string
  savePath :: string
  uploadSpeed :: number
  downloadSpeed :: number
  eta :: number
  queuePosition :: number
  connectedPeers :: number
  connectedSeeds :: number
  totalPeers :: number
  totalSeeds :: number
  totalSelected :: number
  totalSize :: number
  totalUploaded :: number
  totalDownloaded :: number
  ratio :: number

record Label =
  id :: string
  name :: string
  count :: number

record AllClientData =
  torrents :: "NormalizedTorrent list"
  labels :: "Label list"

text \<open>
  The members of the enum \<open>TorrentState\<close> of \<open>./types\<close> (imported as \<open>qbtState\<close>)
  that \<open>index.ts\<close> names. The declaration is not part of the sources, so the value of
  each member is a parameter.
\<close>

record qbtState =
  Uploading :: string
  CheckingUP :: string
  Downloading :: string
  CheckingDL :: string
  Error :: string
  StalledDL :: string
  QueuedDL :: string
  QueuedUP :: string
  PausedDL :: string
  PausedUP :: string


section \<open>The HTTP transport and the other collaborators\<close>

typedecl Agent

record TorrentSettings =
  baseUrl :: string
  path :: string
  username :: string
  password :: string
  timeout :: "number option"
  agent :: "Agent option"

definition defaults :: TorrentSettings where
  "defaults =
     \<lparr>baseUrl = ''http://localhost:9091/'', path = ''/api/v2'', username = [],
      password = [], timeout = Some 5000, agent = None\<rparr>"

type_synonym buffer = "nat list"

text \<open>One field of a \<open>FormData\<close>: the torrent file with its append options, or a plain value.\<close>

datatype form_field =
    FileField buffer string string
  | ValueField js_val

type_synonym form_data = "(string \<times> form_field) list"

datatype req_body =
    NoBody
  | ObjectBody "(string \<times> js_val) list"
  | FormBody form_data

text \<open>
  The options object handed to \<open>got\<close>, with the URL. An option the source does not set is
  \<open>None\<close>.
\<close>

record got_options =
  url :: string
  http_method :: string
  headers :: "(string \<times> string) list"
  retry :: nat
  json :: "bool option"
  form :: "bool option"
  followRedirect :: "bool option"
  body :: req_body
  query :: "(string \<times> js_val) list option"
  opt_agent :: "Agent option"
  opt_timeout :: "number option"

text \<open>
  A response body as \<open>got\<close> hands it over: a string (the text of the answer, or a JSON
  string), an array of torrent records, or \<open>BObject\<close>, a JSON object that is not an array
  and has none of the properties the client reads, such as \<open>{}\<close>.
\<close>

datatype resp_body =
    BText string
  | BTorrents "Torrent list"
  | BObject

record http_response =
  set_cookie :: "string list option"
  resp_body :: resp_body

record Cookie =
  key :: string
  val :: string

text \<open>The outbound HTTP calls made so far, oldest first.\<close>

type_synonym trace = "got_options list"

text \<open>
  The collaborators that are not part of the repository, as parameters:
  \<^item> \<open>qbt\<close>: the enum \<open>qbtState\<close> of \<open>./types\<close>;
  \<^item> \<open>Date_toISOString ms\<close>: \<open>new Date(ms).toISOString()\<close>, which raises RangeError on a
    time value outside the range of \<open>Date\<close>;
  \<^item> \<open>urljoin\<close>: \<open>url-join\<close>;
  \<^item> \<open>got\<close>: the HTTP transport; the daemon's answer may depend on the calls made before;
  \<^item> \<open>Cookie_parse\<close>: \<open>Cookie.parse\<close> of \<open>tough-cookie\<close>, \<open>None\<close> for \<open>undefined\<close>;
  \<^item> \<open>fs_existsSync\<close>, \<open>fs_readFileSync\<close>: the file system;
  \<^item> \<open>Buffer_from_base64\<close>: \<open>Buffer.from(s, 'base64')\<close>;
  \<^item> \<open>form_getHeaders\<close>: \<open>getHeaders\<close> of \<open>form-data\<close>.
\<close>

record env =
  qbt :: qbtState
  Date_toISOString :: "number \<Rightarrow> js_error + string"
  urljoin :: "string list \<Rightarrow> string"
  got :: "trace \<Rightarrow> got_options \<Rightarrow> js_error + http_response"
  Cookie_parse :: "string \<Rightarrow> Cookie option"
  fs_existsSync :: "string \<Rightarrow> bool"
  fs_readFileSync :: "string \<Rightarrow> js_error + buffer"
  Buffer_from_base64 :: "string \<Rightarrow> buffer"
  form_getHeaders :: "form_data \<Rightarrow> (string \<times> string) list"

section \<open>The state normalizer\<close>

text \<open>
  \<open>_normalizeHashes\<close>: \<open>Array.prototype.join\<close> runs over the elements from left to right,
  adding the separator before every element but the first.
\<close>

datatype hashes_arg = Single string | Many "string list"

fun join_loop :: "string \<Rightarrow> string \<Rightarrow> bool \<Rightarrow> string list \<Rightarrow> string" where
  "join_loop sep r first [] = r"
| "join_loop sep r first (x # xs) =
     join_loop sep ((if first then r else r @ sep) @ x) False xs"

definition Array_join :: "string list \<Rightarrow> string \<Rightarrow> string" where
  "Array_join xs sep = join_loop sep [] True xs"

definition normalizeHashes :: "hashes_arg \<Rightarrow> string" where
  "normalizeHashes hashes =
     (case hashes of
        Many hs \<Rightarrow> Array_join hs ''|''
      | Single h \<Rightarrow> h)"

text \<open>
  The words of the specification: the elements joined by \<open>|\<close>, written by recursion on the
  list, one separator between two neighbours.
\<close>

fun pipe_joined :: "string list \<Rightarrow> string" where
  "pipe_joined [] = []"
| "pipe_joined [x] = x"
| "pipe_joined (x # y # ys) = x @ ''|'' @ pipe_joined (y # ys)"

text \<open>
  \<open>_normalizeTorrentData\<close>; \<open>normalizeState\<close> is its chain of tests on \<open>torrent.state\<close>.
  The first test of the chain is
  \<open>torrent.state === qbtState.Uploading || qbtState.CheckingUP\<close>: its second operand is the
  enum member itself, taken for its truth value.
\<close>

definition normalizeState :: "env \<Rightarrow> Torrent \<Rightarrow> TorrentState" where
  "normalizeState e torrent =
     (if Torrent.state torrent = Uploading (qbt e) \<or> truthy (CheckingUP (qbt e)) then seeding
      else if Torrent.state torrent = Downloading (qbt e) then downloading
      else if Torrent.state torrent = CheckingDL (qbt e) then checking'
      else if Torrent.state torrent = Error (qbt e) \<or> Torrent.state torrent = StalledDL (qbt e)
        then error
      else if Torrent.state torrent \<in> set [QueuedDL (qbt e), QueuedUP (qbt e)] then queued
      else if Torrent.state torrent = PausedDL (qbt e) \<or> Torrent.state torrent = PausedUP (qbt e)
        then paused
      else unknown)"

definition normalizeTorrentData :: "env \<Rightarrow> Torrent \<Rightarrow> js_error + NormalizedTorrent" where
  "normalizeTorrentData e torrent =
     (let state' = normalizeState e torrent;
          isCompleted' = (Torrent.progress torrent \<ge> 100)
      in case Date_toISOString e (added_on torrent * 1000) of
           Inl err \<Rightarrow> Inl err
         | Inr dateAdded' \<Rightarrow>
             (case Date_toISOString e (completion_on torrent * 1000) of
                Inl err \<Rightarrow> Inl err
              | Inr dateCompleted' \<Rightarrow>
                  Inr \<lparr>NormalizedTorrent.id = hash torrent,
                       name = Torrent.name torrent,
                       stateMessage = [],
                       state = state',
                       dateAdded = dateAdded',
                       isCompleted = isCompleted',
                       progress = Torrent.progress torrent,
                       label = category torrent,
                       dateCompleted = dateCompleted',
                       savePath = save_path torrent,
                       uploadSpeed = upspeed torrent,
                       downloadSpeed = dlspeed torrent,
                       eta = Torrent.eta torrent,
                       queuePosition = priority torrent,
                       connectedPeers = num_leechs torrent,
                       connectedSeeds = num_seeds torrent,
                       totalPeers = num_incomplete torrent,
                       totalSeeds = num_complete torrent,
                       totalSelected = size_selected torrent,
                       totalSize = total_size torrent,
                       totalUploaded = uploaded torrent,
                       totalDownloaded = downloaded torrent,
                       ratio = Torrent.ratio torrent\<rparr>))"


section \<open>The session manager\<close>

text \<open>The client: its configuration and the private field \<open>_sid\<close>.\<close>

record QBittorrent =
  config :: TorrentSettings
  sid :: "string option"

text \<open>
  An operation of the client takes the client and the trace of outbound calls, and gives
  its result (\<open>Inl\<close> what it raises) with the client and the trace after it.
\<close>

type_synonym 'a io = "QBittorrent \<Rightarrow> trace \<Rightarrow> (js_error + 'a) \<times> QBittorrent \<times> trace"

text \<open>\<open>this._sid\<close> as a condition: \<open>undefined\<close> and the empty string are falsy.\<close>

definition sid_truthy :: "string option \<Rightarrow> bool" where
  "sid_truthy s = (case s of None \<Rightarrow> False | Some v \<Rightarrow> truthy v)"

text \<open>Assignment to a property of an object literal, and the spread of one object into another.\<close>

fun obj_set :: "string \<Rightarrow> 'v \<Rightarrow> (string \<times> 'v) list \<Rightarrow> (string \<times> 'v) list" where
  "obj_set k v [] = [(k, v)]"
| "obj_set k v ((k', v') # kvs) =
     (if k = k' then (k, v) # kvs else (k', v') # obj_set k v kvs)"

definition spread :: "(string \<times> 'v) list \<Rightarrow> (string \<times> 'v) list \<Rightarrow> (string \<times> 'v) list" where
  "spread obj extra = foldl (\<lambda>acc (k, v). obj_set k v acc) obj extra"

definition got_call :: "env \<Rightarrow> got_options \<Rightarrow> trace \<Rightarrow> (js_error + http_response) \<times> trace" where
  "got_call e opts tr = (got e tr opts, tr @ [opts])"

definition config_timeout :: "TorrentSettings \<Rightarrow> number option" where
  "config_timeout cfg =
     (case timeout cfg of None \<Rightarrow> None | Some t \<Rightarrow> if t = 0 then None else Some t)"

definition login_options :: "env \<Rightarrow> TorrentSettings \<Rightarrow> got_options" where
  "login_options e cfg =
     \<lparr>url = urljoin e [baseUrl cfg, path cfg, ''/auth/login''],
      http_method = ''POST'',
      headers = [],
      retry = 0,
      json = None,
      form = Some True,
      followRedirect = Some False,
      body = ObjectBody [(''username'', JStr (username cfg)), (''password'', JStr (password cfg))],
      query = None,
      opt_agent = agent cfg,
      opt_timeout = config_timeout cfg\<rparr>"

definition login :: "env \<Rightarrow> bool io" where
  "login e c tr =
     (case got_call e (login_options e (config c)) tr of
        (Inl err, tr') \<Rightarrow> (Inl err, c, tr')
      | (Inr res, tr') \<Rightarrow>
          (case set_cookie res of
             None \<Rightarrow> (Inl (JsError ''Cookie not found. Auth Failed.''), c, tr')
           | Some [] \<Rightarrow> (Inl (JsError ''Cookie not found. Auth Failed.''), c, tr')
           | Some (first # rest) \<Rightarrow>
               (case Cookie_parse e first of
                  None \<Rightarrow> (Inl (JsError ''Invalid cookie''), c, tr')
                | Some cookie \<Rightarrow>
                    if key cookie = ''SID''
                    then (Inr True, c\<lparr>sid := Some (val cookie)\<rparr>, tr')
                    else (Inl (JsError ''Invalid cookie''), c, tr'))))"

definition logout :: "QBittorrent \<Rightarrow> trace \<Rightarrow> bool \<times> QBittorrent \<times> trace" where
  "logout c tr = (True, c\<lparr>sid := None\<rparr>, tr)"

definition request_options ::
  "env \<Rightarrow> QBittorrent \<Rightarrow> string \<Rightarrow> string \<Rightarrow> (string \<times> js_val) list \<Rightarrow> req_body \<Rightarrow>
   (string \<times> string) list \<Rightarrow> bool \<Rightarrow> got_options" where
  "request_options e c pth meth params bdy hdrs js =
     \<lparr>url = urljoin e [baseUrl (config c), path (config c), pth],
      http_method = meth,
      headers =
        spread [(''Cookie'', ''SID='' @ (case sid c of None \<Rightarrow> ''undefined'' | Some v \<Rightarrow> v))] hdrs,
      retry = 0,
      json = Some js,
      form = None,
      followRedirect = None,
      body = bdy,
      query = Some params,
      opt_agent = agent (config c),
      opt_timeout = config_timeout (config c)\<rparr>"

definition request ::
  "env \<Rightarrow> string \<Rightarrow> string \<Rightarrow> (string \<times> js_val) list \<Rightarrow> req_body \<Rightarrow>
   (string \<times> string) list \<Rightarrow> bool \<Rightarrow> http_response io" where
  "request e pth meth params bdy hdrs js c tr =
     (case (if \<not> sid_truthy (sid c) then login e c tr else (Inr True, c, tr)) of
        (Inl err, c1, tr1) \<Rightarrow> (Inl err, c1, tr1)
      | (Inr authed, c1, tr1) \<Rightarrow>
          if authed then
            (case got_call e (request_options e c1 pth meth params bdy hdrs js) tr1 of
               (r, tr2) \<Rightarrow> (r, c1, tr2))
          else (Inl (JsError ''Auth Failed''), c1, tr1))"


section \<open>Endpoint operations\<close>

text \<open>\<open>hashes\<close> as a condition: an array is truthy, also when it is empty.\<close>

definition hashes_truthy :: "hashes_arg \<Rightarrow> bool" where
  "hashes_truthy hashes = (case hashes of Single h \<Rightarrow> truthy h | Many hs \<Rightarrow> True)"

definition listTorrents_params ::
  "hashes_arg option \<Rightarrow> string option \<Rightarrow> string option \<Rightarrow> (string \<times> js_val) list" where
  "listTorrents_params hashes filter' category' =
     (let params0 = [];
          params1 =
            (case hashes of
               None \<Rightarrow> params0
             | Some hs \<Rightarrow>
                 if hashes_truthy hs then obj_set ''hashes'' (JStr (normalizeHashes hs)) params0
                 else params0);
          params2 =
            (case filter' of
               None \<Rightarrow> params1
             | Some f \<Rightarrow> if truthy f then obj_set ''filter'' (JStr f) params1 else params1)
      in case category' of
           None \<Rightarrow> params2
         | Some cat \<Rightarrow> if truthy cat then obj_set ''category'' (JStr cat) params2 else params2)"

text \<open>
  \<open>listTorrents\<close> returns \<open>res.body\<close> as it is; the source does not check that it is an
  array of torrent records.
\<close>

definition listTorrents ::
  "env \<Rightarrow> hashes_arg option \<Rightarrow> string option \<Rightarrow> string option \<Rightarrow> resp_body io" where
  "listTorrents e hashes filter' category' c tr =
     (case request e ''/torrents/info'' ''GET'' (listTorrents_params hashes filter' category')
             NoBody [] True c tr of
        (Inl err, c', tr') \<Rightarrow> (Inl err, c', tr')
      | (Inr res, c', tr') \<Rightarrow> (Inr (resp_body res), c', tr'))"


text \<open>
  The object \<open>labels\<close> of \<open>getAllData\<close> starts as \<open>{}\<close>: it has no property of its own and
  inherits those of \<open>Object.prototype\<close>. Assigning to \<open>__proto__\<close> replaces the prototype
  by the assigned label, whose own properties \<open>id\<close>, \<open>name\<close> and \<open>count\<close> are inherited
  from then on.
\<close>

record labels_obj =
  own :: "(string \<times> Label) list"
  proto :: "Label option"

definition Object_prototype_keys :: "string list" where
  "Object_prototype_keys =
     [''constructor'', ''__defineGetter__'', ''__defineSetter__'', ''hasOwnProperty'',
      ''__lookupGetter__'', ''__lookupSetter__'', ''isPrototypeOf'', ''propertyIsEnumerable'',
      ''toString'', ''valueOf'', ''toLocaleString'']"

datatype js_prop = PUndefined | PLabel Label | PStr string | PNum number | PBuiltin

fun prop_truthy :: "js_prop \<Rightarrow> bool" where
  "prop_truthy PUndefined = False"
| "prop_truthy (PLabel l) = True"
| "prop_truthy (PStr s) = truthy s"
| "prop_truthy (PNum n) = (n \<noteq> 0)"
| "prop_truthy PBuiltin = True"

definition inherited_get :: "string \<Rightarrow> js_prop" where
  "inherited_get k = (if k \<in> set Object_prototype_keys then PBuiltin else PUndefined)"

definition labels_get :: "labels_obj \<Rightarrow> string \<Rightarrow> js_prop" where
  "labels_get ls k =
     (if k = ''__proto__'' then (case proto ls of None \<Rightarrow> PBuiltin | Some l \<Rightarrow> PLabel l)
      else
        (case map_of (own ls) k of
           Some l \<Rightarrow> PLabel l
         | None \<Rightarrow>
             (case proto ls of
                None \<Rightarrow> inherited_get k
              | Some l \<Rightarrow>
                  if k = ''id'' then PStr (Label.id l)
                  else if k = ''name'' then PStr (Label.name l)
                  else if k = ''count'' then PNum (count l)
                  else inherited_get k)))"

definition labels_set :: "labels_obj \<Rightarrow> string \<Rightarrow> Label \<Rightarrow> labels_obj" where
  "labels_set ls k l =
     (if k = ''__proto__'' then ls\<lparr>proto := Some l\<rparr> else ls\<lparr>own := obj_set k l (own ls)\<rparr>)"

text \<open>
  The loop of \<open>getAllData\<close>. Where \<open>labels[torrentData.label]\<close> is falsy, the source runs
  \<open>labels[torrentData.label].count += 1\<close>, which raises TypeError: the value is
  \<open>undefined\<close>, or a primitive on which strict code cannot create a property.
\<close>

fun getAllData_loop ::
  "env \<Rightarrow> Torrent list \<Rightarrow> AllClientData \<Rightarrow> labels_obj \<Rightarrow> js_error + AllClientData \<times> labels_obj"
  where
  "getAllData_loop e [] results ls = Inr (results, ls)"
| "getAllData_loop e (torrent # rest) results ls =
     (case normalizeTorrentData e torrent of
        Inl err \<Rightarrow> Inl err
      | Inr torrentData \<Rightarrow>
          (let results' = results\<lparr>torrents := torrents results @ [torrentData]\<rparr> in
           if truthy (label torrentData) then
             if prop_truthy (labels_get ls (label torrentData)) then
               getAllData_loop e rest results'
                 (labels_set ls (label torrentData)
                    \<lparr>Label.id = label torrentData, name = label torrentData, count = 1\<rparr>)
             else Inl TypeError
           else getAllData_loop e rest results' ls))"

text \<open>
  \<open>getAllData\<close> iterates over what \<open>listTorrents\<close> returns. An array gives its records.
  \<open>{}\<close> is not iterable, and \<open>for ... of\<close> raises TypeError. A string gives its
  characters: none for the empty string, and otherwise a first one, on which
  \<open>_normalizeTorrentData\<close> raises RangeError as in \<open>getTorrent\<close>.
\<close>

definition getAllData :: "env \<Rightarrow> AllClientData io" where
  "getAllData e c tr =
     (case listTorrents e None None None c tr of
        (Inl err, c', tr') \<Rightarrow> (Inl err, c', tr')
      | (Inr listed, c', tr') \<Rightarrow>
          (case listed of
             BTorrents ts \<Rightarrow>
               (case getAllData_loop e ts \<lparr>torrents = [], labels = []\<rparr>
                       \<lparr>own = [], proto = None\<rparr> of
                  Inl err \<Rightarrow> (Inl err, c', tr')
                | Inr (results, ls) \<Rightarrow> (Inr results, c', tr'))
           | BObject \<Rightarrow> (Inl TypeError, c', tr')
           | BText [] \<Rightarrow> (Inr \<lparr>torrents = [], labels = []\<rparr>, c', tr')
           | BText (ch # rest) \<Rightarrow> (Inl RangeError, c', tr')))"

text \<open>\<open>addTorrent\<close>: the form, then the upload.\<close>

datatype torrent_arg = TString string | TBuffer buffer

definition addTorrent_form ::
  "env \<Rightarrow> torrent_arg \<Rightarrow> string \<Rightarrow> (string \<times> js_val) list option \<Rightarrow> js_error + form_data" where
  "addTorrent_form e torrent filename options =
     (case
        (case torrent of
           TString s \<Rightarrow>
             if fs_existsSync e s then
               (case fs_readFileSync e s of
                  Inl err \<Rightarrow> Inl err
                | Inr b \<Rightarrow> Inr [(''file'', FileField b ''application/x-bittorrent'' filename)])
             else
               Inr [(''file'',
                     FileField (Buffer_from_base64 e s) ''application/x-bittorrent'' filename)]
         | TBuffer b \<Rightarrow> Inr [(''file'', FileField b ''application/x-bittorrent'' filename)])
      of
        Inl err \<Rightarrow> Inl err
      | Inr form0 \<Rightarrow>
          (case options of
             None \<Rightarrow> Inr form0
           | Some opts \<Rightarrow> Inr (form0 @ map (\<lambda>(k, v). (k, ValueField v)) opts)))"

definition addTorrent ::
  "env \<Rightarrow> torrent_arg \<Rightarrow> string \<Rightarrow> (string \<times> js_val) list option \<Rightarrow> bool io" where
  "addTorrent e torrent filename options c tr =
     (case addTorrent_form e torrent filename options of
        Inl err \<Rightarrow> (Inl err, c, tr)
      | Inr form0 \<Rightarrow>
          (case request e ''/torrents/add'' ''POST'' [] (FormBody form0) (form_getHeaders e form0)
                  False c tr of
             (Inl err, c', tr') \<Rightarrow> (Inl err, c', tr')
           | (Inr res, c', tr') \<Rightarrow>
               if resp_body res = BText ''Fails.''
               then (Inl (JsError ''Failed to add torrent''), c', tr')
               else (Inr True, c', tr')))"

text \<open>The operations that await the request and return \<open>true\<close>.\<close>

definition returns_true ::
  "(js_error + http_response) \<times> QBittorrent \<times> trace \<Rightarrow> (js_error + bool) \<times> QBittorrent \<times> trace"
  where
  "returns_true r =
     (case r of
        (Inl err, c', tr') \<Rightarrow> (Inl err, c', tr')
      | (Inr res, c', tr') \<Rightarrow> (Inr True, c', tr'))"

definition addTrackers :: "env \<Rightarrow> string \<Rightarrow> string \<Rightarrow> bool io" where
  "addTrackers e h urls c tr =
     returns_true
       (request e ''/torrents/addTrackers'' ''GET'' [(''hash'', JStr h), (''urls'', JStr urls)]
          NoBody [] True c tr)"

definition editTrackers :: "env \<Rightarrow> string \<Rightarrow> string \<Rightarrow> string \<Rightarrow> bool io" where
  "editTrackers e h origUrl newUrl c tr =
     returns_true
       (request e ''/torrents/editTrackers'' ''GET''
          [(''hash'', JStr h), (''origUrl'', JStr origUrl), (''newUrl'', JStr newUrl)]
          NoBody [] True c tr)"

definition removeTrackers :: "env \<Rightarrow> string \<Rightarrow> string \<Rightarrow> bool io" where
  "removeTrackers e h urls c tr =
     returns_true
       (request e ''/torrents/editTrackers'' ''GET'' [(''hash'', JStr h), (''urls'', JStr urls)]
          NoBody [] True c tr)"


section \<open>A concrete daemon for the examples\<close>

text \<open>
  Modelled from the spec: the declaration of the enum \<open>TorrentState\<close> of \<open>./types\<close> is not
  part of the sources. Section 4.2 of the specification names its members; each member is
  given the state string of the daemon's Web API, which is what \<open>torrent.state\<close> holds.
\<close>

definition api_states :: qbtState where
  "api_states =
     \<lparr>Uploading = ''uploading'', CheckingUP = ''checkingUP'', Downloading = ''downloading'',
      CheckingDL = ''checkingDL'', Error = ''error'', StalledDL = ''stalledDL'',
      QueuedDL = ''queuedDL'', QueuedUP = ''queuedUP'', PausedDL = ''pausedDL'',
      PausedUP = ''pausedUP''\<rparr>"

text \<open>
  A stand-in for the rendering of a date, for the examples only: it raises RangeError
  outside the range of \<open>Date\<close> (8.64e15 milliseconds either side of the epoch), renders
  the epoch in full and every other time value by the same text.
\<close>

definition demo_toISOString :: "number \<Rightarrow> js_error + string" where
  "demo_toISOString ms =
     (if \<bar>ms\<bar> \<le> 8640000000000000
      then Inr (if ms = 0 then ''1970-01-01T00:00:00.000Z'' else ''2019-06-01T00:00:00.000Z'')
      else Inl RangeError)"

text \<open>
  The name and the value of the cookie pair of a \<open>set-cookie\<close> line, as the strict mode of
  \<open>Cookie.parse\<close> reads them: the pair ends at the first \<open>;\<close>, the name at the first
  \<open>=\<close>, and a pair with no \<open>=\<close> or with an empty name is refused.
\<close>

definition demo_Cookie_parse :: "string \<Rightarrow> Cookie option" where
  "demo_Cookie_parse s =
     (let pair = takeWhile (\<lambda>ch. ch \<noteq> CHR '';'') s;
          k = takeWhile (\<lambda>ch. ch \<noteq> CHR ''='') pair
      in if k = [] then None
         else if length k = length pair then None
         else Some \<lparr>key = k, val = drop (Suc (length k)) pair\<rparr>)"

text \<open>
  The torrents a daemon that holds \<open>ts\<close> lists for a query: those whose hash is one of
  the hashes of the parameter \<open>hashes\<close> (separated by \<open>|\<close>), and all of them where the
  query has no such parameter.
\<close>

definition split_pipe :: "string \<Rightarrow> string list" where
  "split_pipe s =
     foldr (\<lambda>ch acc. if ch = CHR ''|'' then [] # acc else (ch # hd acc) # tl acc) s [[]]"

definition demo_select :: "(string \<times> js_val) list option \<Rightarrow> Torrent list \<Rightarrow> Torrent list" where
  "demo_select q ts =
     (case q of
        None \<Rightarrow> ts
      | Some ps \<Rightarrow>
          (case map_of ps ''hashes'' of
             None \<Rightarrow> ts
           | Some (JStr hs) \<Rightarrow> filter (\<lambda>t. hash t \<in> set (split_pipe hs)) ts
           | Some (JNum n) \<Rightarrow> ts
           | Some (JBool b) \<Rightarrow> ts))"

text \<open>
  A daemon that answers the login with the given \<open>set-cookie\<close> lines, the torrent list
  with those of the given torrents that the query selects, and the upload with the given
  text.
\<close>

definition demo_got ::
  "string list option \<Rightarrow> Torrent list \<Rightarrow> string \<Rightarrow> trace \<Rightarrow> got_options \<Rightarrow>
   js_error + http_response" where
  "demo_got cookies ts add_body tr opts =
     (if url opts = ''http://d/api/v2/auth/login''
        then Inr \<lparr>set_cookie = cookies, resp_body = BText ''Ok.''\<rparr>
      else if url opts = ''http://d/api/v2/torrents/info''
        then Inr \<lparr>set_cookie = None, resp_body = BTorrents (demo_select (query opts) ts)\<rparr>
      else if url opts = ''http://d/api/v2/torrents/add''
        then Inr \<lparr>set_cookie = None, resp_body = BText add_body\<rparr>
      else Inr \<lparr>set_cookie = None, resp_body = BText []\<rparr>)"

definition demo_env :: "string list option \<Rightarrow> Torrent list \<Rightarrow> string \<Rightarrow> env" where
  "demo_env cookies ts add_body =
     \<lparr>qbt = api_states,
      Date_toISOString = demo_toISOString,
      urljoin = concat,
      got = demo_got cookies ts add_body,
      Cookie_parse = demo_Cookie_parse,
      fs_existsSync = (\<lambda>p. False),
      fs_readFileSync = (\<lambda>p. Inl (FsError ''ENOENT'')),
      Buffer_from_base64 = (\<lambda>s. []),
      form_getHeaders = (\<lambda>f. [(''content-type'', ''multipart/form-data'')])\<rparr>"

definition demo_config :: TorrentSettings where
  "demo_config = defaults\<lparr>baseUrl := ''http://d''\<rparr>"

text \<open>A client that has not logged in, and one that holds the session token \<open>abc\<close>.\<close>

definition fresh_client :: QBittorrent where
  "fresh_client = \<lparr>config = demo_config, sid = None\<rparr>"

definition authed_client :: QBittorrent where
  "authed_client = \<lparr>config = demo_config, sid = Some ''abc''\<rparr>"

definition demo_torrent :: "string \<Rightarrow> number \<Rightarrow> string \<Rightarrow> Torrent" where
  "demo_torrent st prog cat =
     \<lparr>hash = ''8c212779b4abde7c6bc608063a0d008b7e40ce32'', name = ''debian.iso'', state = st,
      added_on = 0, progress = prog, category = cat, completion_on = 0,
      save_path = ''/downloads'', upspeed = 0, dlspeed = 0, eta = 0, priority = 1,
      num_leechs = 0, num_seeds = 0, num_incomplete = 0, num_complete = 0,
      size_selected = 1024, total_size = 1024, uploaded = 0, downloaded = 512, ratio = 0\<rparr>"


section \<open>Hash normalization\<close>

lemma join_loop_False: "join_loop sep r False xs = r @ concat (map (\<lambda>x. sep @ x) xs)"
  by (induction xs arbitrary: r) simp_all

lemma pipe_joined_Cons: "pipe_joined (x # xs) = x @ concat (map (\<lambda>y. ''|'' @ y) xs)"
  by (induction xs arbitrary: x) simp_all

text \<open>
  Claim C6. For every list of hashes, \<open>_normalizeHashes\<close> gives the elements joined by
  \<open>|\<close>; for every plain string (the literal \<open>all\<close> included) it gives that string
  unchanged.
\<close>

theorem normalizeHashes_joins:
  "normalizeHashes (Many hs) = pipe_joined hs \<and> normalizeHashes (Single h) = h"
  by (cases hs) (simp_all add: normalizeHashes_def Array_join_def join_loop_False pipe_joined_Cons)

text \<open>The examples of the specification: \<open>["a","b"]\<close>, \<open>["a"]\<close>, \<open>"a"\<close> and \<open>"all"\<close>.\<close>

theorem normalizeHashes_joins_witness:
  "normalizeHashes (Many [''a'', ''b'']) = ''a|b'' \<and> normalizeHashes (Many [''a'']) = ''a''
   \<and> normalizeHashes (Single ''a'') = ''a'' \<and> normalizeHashes (Single ''all'') = ''all''"
  using normalizeHashes_joins [of "[''a'', ''b'']" "''a''"]
    normalizeHashes_joins [of "[''a'']" "''all''"]
  by simp

section \<open>State normalization\<close>

text \<open>
  Where the enum member \<open>CheckingUP\<close> is a non-empty string, the first test of the chain
  holds for every torrent, so every raw state is normalized as \<open>seeding\<close>.
\<close>

lemma normalizeState_truthy: "truthy (CheckingUP (qbt e)) \<Longrightarrow> normalizeState e t = seeding"
  by (simp add: normalizeState_def)

lemma normalizeTorrentData_fields:
  "normalizeTorrentData e t = Inr n \<Longrightarrow>
     NormalizedTorrent.state n = normalizeState e t \<and> label n = category t"
  by (auto simp: normalizeTorrentData_def Let_def split: sum.splits)

lemma demo_normalize_ex:
  "\<exists>n. normalizeTorrentData (demo_env cs ts b) (demo_torrent st p cat) = Inr n \<and> label n = cat"
  by (simp add: normalizeTorrentData_def Let_def demo_env_def demo_torrent_def demo_toISOString_def)

text \<open>
  Claim C1. The mapping table sends the raw state \<open>downloading\<close> to \<open>downloading\<close>. The
  code sends it to \<open>seeding\<close>: a torrent of the daemon in the state \<open>downloading\<close> is
  normalized, and its normalized state is \<open>seeding\<close>.
\<close>

theorem downloading_is_normalized_as_seeding:
  "\<exists>n. normalizeTorrentData (demo_env None [] []) (demo_torrent ''downloading'' 50 []) = Inr n
     \<and> NormalizedTorrent.state n = seeding \<and> NormalizedTorrent.state n \<noteq> downloading"
  by (simp add: normalizeTorrentData_def Let_def demo_env_def demo_torrent_def demo_toISOString_def
      normalizeState_def api_states_def truthy_def)

text \<open>
  Claim C5. The flag \<open>isCompleted\<close> of the normalized record is true exactly when the raw
  progress is at least 100; a progress above 100 is accepted and gives true.
\<close>

theorem isCompleted_iff:
  "normalizeTorrentData e t = Inr n \<Longrightarrow> isCompleted n = (100 \<le> Torrent.progress t)"
  by (auto simp: normalizeTorrentData_def Let_def split: sum.splits)

text \<open>A progress of 150 gives a completed torrent, a progress of 99 does not.\<close>

theorem isCompleted_iff_witness:
  "(\<exists>n. normalizeTorrentData (demo_env None [] []) (demo_torrent ''uploading'' 150 []) = Inr n
      \<and> isCompleted n)
   \<and> (\<exists>n. normalizeTorrentData (demo_env None [] []) (demo_torrent ''uploading'' 99 []) = Inr n
      \<and> \<not> isCompleted n)"
proof -
  obtain n1 where n1:
    "normalizeTorrentData (demo_env None [] []) (demo_torrent ''uploading'' 150 []) = Inr n1"
    using demo_normalize_ex by blast
  obtain n2 where n2:
    "normalizeTorrentData (demo_env None [] []) (demo_torrent ''uploading'' 99 []) = Inr n2"
    using demo_normalize_ex by blast
  have "isCompleted n1"
    using isCompleted_iff [OF n1] by (simp add: demo_torrent_def)
  moreover have "\<not> isCompleted n2"
    using isCompleted_iff [OF n2] by (simp add: demo_torrent_def)
  ultimately show ?thesis using n1 n2 by blast
qed

section \<open>Login, logout and the session gate\<close>

lemmas demo_defs =
  demo_env_def demo_got_def demo_config_def defaults_def fresh_client_def authed_client_def
  demo_Cookie_parse_def login_options_def request_options_def config_timeout_def
  got_call_def spread_def truthy_def sid_truthy_def

lemma login_trace: "snd (snd (login e c tr)) = tr @ [login_options e (config c)]"
  by (simp add: login_def got_call_def split: sum.splits option.splits list.splits)

lemma login_result: "login e c tr = (Inr ok, c1, tr1) \<Longrightarrow> ok"
  by (auto simp: login_def got_call_def split: sum.splits option.splits list.splits if_splits)

lemma login_config: "config (fst (snd (login e c tr))) = config c"
  by (simp add: login_def got_call_def split: sum.splits option.splits list.splits)

lemma request_options_not_login: "request_options e c p m ps b hs js \<noteq> login_options e cfg"
proof
  assume "request_options e c p m ps b hs js = login_options e cfg"
  then have "json (request_options e c p m ps b hs js) = json (login_options e cfg)" by simp
  then show False by (simp add: request_options_def login_options_def)
qed

lemma demo_login_ok:
  "login (demo_env (Some [''SID=abc; HttpOnly; path=/'']) ts b) fresh_client [] =
     (Inr True, fresh_client\<lparr>sid := Some ''abc''\<rparr>,
      [login_options (demo_env (Some [''SID=abc; HttpOnly; path=/'']) ts b) demo_config])"
  by (simp add: login_def demo_defs Let_def)

text \<open>
  Claim C3. If the answer to the login carries no \<open>set-cookie\<close> header (or an empty one),
  or its first cookie does not parse or is not named \<open>SID\<close>, then \<open>login\<close> raises an
  error and the client, its session token included, is unchanged.
\<close>

theorem login_failure_keeps_session:
  assumes "got e tr (login_options e (config c)) = Inr res"
    and "set_cookie res = None \<or> set_cookie res = Some []
         \<or> (\<exists>first rest. set_cookie res = Some (first # rest)
              \<and> (case Cookie_parse e first of
                    None \<Rightarrow> True
                  | Some cookie \<Rightarrow> key cookie \<noteq> ''SID''))"
  shows "\<exists>msg. (msg = ''Cookie not found. Auth Failed.'' \<or> msg = ''Invalid cookie'')
           \<and> login e c tr = (Inl (JsError msg), c, tr @ [login_options e (config c)])"
  using assms by (auto simp: login_def got_call_def split: option.splits)

text \<open>
  A daemon that sends no \<open>set-cookie\<close> header, and one whose first cookie is named
  \<open>JSESSIONID\<close>: the client that had no token has none, the client that held \<open>abc\<close>
  still holds it.
\<close>

theorem login_failure_keeps_session_witness:
  "(\<exists>msg. login (demo_env None [] []) fresh_client [] =
       (Inl (JsError msg), fresh_client, [login_options (demo_env None [] []) demo_config]))
   \<and> (\<exists>msg. login (demo_env (Some [''JSESSIONID=xyz; path=/'']) [] []) authed_client [] =
       (Inl (JsError msg), authed_client,
        [login_options (demo_env (Some [''JSESSIONID=xyz; path=/'']) [] []) demo_config]))"
proof -
  let ?E1 = "demo_env None [] []"
  let ?E2 = "demo_env (Some [''JSESSIONID=xyz; path=/'']) [] []"
  have g1: "got ?E1 [] (login_options ?E1 (config fresh_client)) =
              Inr \<lparr>set_cookie = None, resp_body = BText ''Ok.''\<rparr>"
    by (simp add: demo_defs)
  have g2: "got ?E2 [] (login_options ?E2 (config authed_client)) =
              Inr \<lparr>set_cookie = Some [''JSESSIONID=xyz; path=/''], resp_body = BText ''Ok.''\<rparr>"
    by (simp add: demo_defs)
  have p2: "Cookie_parse ?E2 ''JSESSIONID=xyz; path=/'' =
              Some \<lparr>key = ''JSESSIONID'', val = ''xyz''\<rparr>"
    by (simp add: demo_defs)
  have "\<exists>msg. (msg = ''Cookie not found. Auth Failed.'' \<or> msg = ''Invalid cookie'')
          \<and> login ?E1 fresh_client [] =
          (Inl (JsError msg), fresh_client, [] @ [login_options ?E1 (config fresh_client)])"
    by (rule login_failure_keeps_session [OF g1]) simp
  moreover have "\<exists>msg. (msg = ''Cookie not found. Auth Failed.'' \<or> msg = ''Invalid cookie'')
          \<and> login ?E2 authed_client [] =
          (Inl (JsError msg), authed_client, [] @ [login_options ?E2 (config authed_client)])"
    by (rule login_failure_keeps_session [OF g2]) (simp add: p2)
  ultimately show ?thesis by (auto simp: fresh_client_def authed_client_def)
qed

text \<open>
  Claim C9. \<open>logout\<close> returns \<open>true\<close>, leaves the client without a session token, changes
  no other field of the client (the configuration in particular) and makes no outbound
  call.
\<close>

theorem logout_clears_only_session:
  "fst (logout c tr) = True \<and> sid (fst (snd (logout c tr))) = None
   \<and> config (fst (snd (logout c tr))) = config c
   \<and> QBittorrent.more (fst (snd (logout c tr))) = QBittorrent.more c
   \<and> snd (snd (logout c tr)) = tr"
  by (simp add: logout_def)

theorem logout_clears_only_session_witness:
  "fst (logout authed_client []) = True \<and> sid (fst (snd (logout authed_client []))) = None
   \<and> config (fst (snd (logout authed_client []))) = demo_config
   \<and> snd (snd (logout authed_client [])) = []"
  using logout_clears_only_session [of authed_client "[]"]
  by (simp add: authed_client_def)


text \<open>
  Claim C2, as the code has it. A call of \<open>request\<close> on a client whose stored token is
  absent or the empty string makes exactly one login call, and issues the target request
  after it only if that login succeeds. A call on a client whose stored token is a
  non-empty string issues the target request and makes no login call. The target call is
  never the login call: it sets the option \<open>json\<close>, which the login call leaves unset.
\<close>

theorem request_session_gate:
  "(\<not> sid_truthy (sid c) \<longrightarrow>
      (\<exists>r c1. login e c tr = (r, c1, tr @ [login_options e (config c)])
         \<and> request e p m ps b hs js c tr =
             (case r of
                Inl err \<Rightarrow> (Inl err, c1, tr @ [login_options e (config c)])
              | Inr ok \<Rightarrow>
                  (got e (tr @ [login_options e (config c)]) (request_options e c1 p m ps b hs js),
                   c1,
                   tr @ [login_options e (config c), request_options e c1 p m ps b hs js]))))
   \<and> (sid_truthy (sid c) \<longrightarrow>
        request e p m ps b hs js c tr =
          (got e tr (request_options e c p m ps b hs js), c,
           tr @ [request_options e c p m ps b hs js]))
   \<and> (\<forall>c1. request_options e c1 p m ps b hs js \<noteq> login_options e (config c))"
proof (intro conjI impI)
  assume falsy: "\<not> sid_truthy (sid c)"
  obtain r c1 tr1 where l: "login e c tr = (r, c1, tr1)"
    by (cases "login e c tr") auto
  have tr1: "tr1 = tr @ [login_options e (config c)]"
    using login_trace [of e c tr] l by simp
  have "request e p m ps b hs js c tr =
          (case r of
             Inl err \<Rightarrow> (Inl err, c1, tr1)
           | Inr ok \<Rightarrow>
               (got e tr1 (request_options e c1 p m ps b hs js), c1,
                tr1 @ [request_options e c1 p m ps b hs js]))"
    using falsy l login_result [of e c tr _ c1 tr1]
    by (auto simp: request_def got_call_def split: sum.splits)
  then show "\<exists>r c1. login e c tr = (r, c1, tr @ [login_options e (config c)])
         \<and> request e p m ps b hs js c tr =
             (case r of
                Inl err \<Rightarrow> (Inl err, c1, tr @ [login_options e (config c)])
              | Inr ok \<Rightarrow>
                  (got e (tr @ [login_options e (config c)]) (request_options e c1 p m ps b hs js),
                   c1,
                   tr @ [login_options e (config c), request_options e c1 p m ps b hs js]))"
    using l tr1 by (cases r) auto
next
  assume "sid_truthy (sid c)"
  then show "request e p m ps b hs js c tr =
          (got e tr (request_options e c p m ps b hs js), c,
           tr @ [request_options e c p m ps b hs js])"
    by (simp add: request_def got_call_def)
next
  show "\<forall>c1. request_options e c1 p m ps b hs js \<noteq> login_options e (config c)"
    by (simp add: request_options_not_login)
qed

text \<open>
  The client that has not logged in makes the login call, then the target call with the
  token \<open>abc\<close> of the daemon's cookie; the client that holds a token makes the target
  call alone.
\<close>

theorem request_session_gate_witness:
  "snd (snd (request (demo_env (Some [''SID=abc; HttpOnly; path=/'']) [] []) ''/app/version''
               ''GET'' [] NoBody [] False fresh_client [])) =
     [login_options (demo_env (Some [''SID=abc; HttpOnly; path=/'']) [] []) demo_config,
      request_options (demo_env (Some [''SID=abc; HttpOnly; path=/'']) [] [])
        (fresh_client\<lparr>sid := Some ''abc''\<rparr>) ''/app/version'' ''GET'' [] NoBody [] False]
   \<and> snd (snd (request (demo_env (Some [''SID=abc; HttpOnly; path=/'']) [] []) ''/app/version''
               ''GET'' [] NoBody [] False authed_client [])) =
     [request_options (demo_env (Some [''SID=abc; HttpOnly; path=/'']) [] []) authed_client
        ''/app/version'' ''GET'' [] NoBody [] False]"
proof -
  let ?E = "demo_env (Some [''SID=abc; HttpOnly; path=/'']) [] []"
  have f: "\<not> sid_truthy (sid fresh_client)"
    by (simp add: fresh_client_def sid_truthy_def)
  have a: "sid_truthy (sid authed_client)"
    by (simp add: authed_client_def sid_truthy_def truthy_def)
  have c: "config fresh_client = demo_config"
    by (simp add: fresh_client_def)
  show ?thesis
    using request_session_gate [of fresh_client ?E "[]" "''/app/version''" "''GET''" "[]" NoBody
        "[]" False]
      request_session_gate [of authed_client ?E "[]" "''/app/version''" "''GET''" "[]" NoBody
        "[]" False]
      f a demo_login_ok [of "[]" "[]"]
    by (auto simp: c)
qed

text \<open>
  Claim C2, as the specification states it, fails. The daemon answers the login with the
  cookie \<open>SID=\<close>. The first call of \<open>request\<close> logs in, the login succeeds and stores the
  empty string as the session token, and the target request is answered. The second call
  finds that token, and makes a login call again before its target request.
\<close>

theorem empty_token_logs_in_again:
  "\<exists>r1 c1 tr1.
     request (demo_env (Some [''SID='']) [] []) ''/app/version'' ''GET'' [] NoBody [] False
       fresh_client [] = (Inr r1, c1, tr1)
     \<and> sid c1 = Some []
     \<and> snd (snd (request (demo_env (Some [''SID='']) [] []) ''/app/version'' ''GET'' [] NoBody []
                    False c1 tr1)) =
         tr1 @ [login_options (demo_env (Some [''SID='']) [] []) (config c1),
                request_options (demo_env (Some [''SID='']) [] []) c1 ''/app/version'' ''GET'' []
                  NoBody [] False]"
  by (simp add: request_def login_def demo_defs Let_def)

section \<open>Endpoint operations\<close>

lemma demo_form:
  "addTorrent_form (demo_env cs ts b) (TBuffer buf) fn None =
     Inr [(''file'', FileField buf ''application/x-bittorrent'' fn)]"
  by (simp add: addTorrent_form_def)

lemma demo_add_request:
  "request (demo_env cs ts b) ''/torrents/add'' ''POST'' [] bdy hs False authed_client [] =
     (Inr \<lparr>set_cookie = None, resp_body = BText b\<rparr>, authed_client,
      [request_options (demo_env cs ts b) authed_client ''/torrents/add'' ''POST'' [] bdy hs
         False])"
  by (simp add: request_def demo_defs)

lemma demo_info_request:
  "request (demo_env cs ts b) ''/torrents/info'' ''GET'' ps NoBody [] True authed_client [] =
     (Inr \<lparr>set_cookie = None, resp_body = BTorrents (demo_select (Some ps) ts)\<rparr>, authed_client,
      [request_options (demo_env cs ts b) authed_client ''/torrents/info'' ''GET'' ps NoBody []
         True])"
  by (simp add: request_def demo_defs)

lemma demo_list:
  "listTorrents (demo_env cs ts b) None None None authed_client [] =
     (Inr (BTorrents ts), authed_client,
      [request_options (demo_env cs ts b) authed_client ''/torrents/info'' ''GET'' [] NoBody []
         True])"
  by (simp add: listTorrents_def demo_info_request listTorrents_params_def demo_select_def)

text \<open>
  Claim C4. Where the form is built and the upload request is answered, \<open>addTorrent\<close>
  raises an error if the body of the answer is the text \<open>Fails.\<close>, and returns \<open>true\<close>
  otherwise.
\<close>

theorem addTorrent_sentinel:
  assumes "addTorrent_form e torrent filename options = Inr form0"
    and "request e ''/torrents/add'' ''POST'' [] (FormBody form0) (form_getHeaders e form0)
           False c tr = (Inr res, c', tr')"
  shows "addTorrent e torrent filename options c tr =
           (if resp_body res = BText ''Fails.''
            then Inl (JsError ''Failed to add torrent'') else Inr True, c', tr')"
  using assms by (simp add: addTorrent_def)

text \<open>A daemon that answers the upload with \<open>Fails.\<close>, and one that answers \<open>Ok.\<close>.\<close>

theorem addTorrent_sentinel_witness:
  "fst (addTorrent (demo_env None [] ''Fails.'') (TBuffer [100, 56]) ''torrent'' None
          authed_client []) = Inl (JsError ''Failed to add torrent'')
   \<and> fst (addTorrent (demo_env None [] ''Ok.'') (TBuffer [100, 56]) ''torrent'' None
          authed_client []) = Inr True"
  using addTorrent_sentinel [OF demo_form demo_add_request,
      of None "[]" "''Fails.''" "[100, 56]" "''torrent''"]
    addTorrent_sentinel [OF demo_form demo_add_request,
      of None "[]" "''Ok.''" "[100, 56]" "''torrent''"]
  by simp




text \<open>
  The outbound calls of \<open>request\<close> go to the login URL (where the client logs in) and to
  the URL of the path it is given, whatever the method, the parameters and the body.
\<close>

lemma returns_true_trace: "snd (snd (returns_true r)) = snd (snd r)"
  by (simp add: returns_true_def split: prod.splits sum.splits)

lemma request_urls:
  "map url (snd (snd (request e p m ps b hs js c tr))) =
     (if sid_truthy (sid c) then map url tr @ [urljoin e [baseUrl (config c), path (config c), p]]
      else
        (case fst (login e c tr) of
           Inl err \<Rightarrow> map url tr @ [url (login_options e (config c))]
         | Inr ok \<Rightarrow>
             map url tr @ [url (login_options e (config c)),
                           urljoin e [baseUrl (config c), path (config c), p]]))"
proof (cases "sid_truthy (sid c)")
  case True
  then show ?thesis by (simp add: request_def got_call_def request_options_def)
next
  case False
  obtain r c1 tr1 where l: "login e c tr = (r, c1, tr1)"
    by (cases "login e c tr") auto
  have tr1: "tr1 = tr @ [login_options e (config c)]"
    using login_trace [of e c tr] l by simp
  have c1: "config c1 = config c"
    using login_config [of e c tr] l by simp
  show ?thesis
  proof (cases r)
    case (Inl err)
    then show ?thesis using False l tr1 by (simp add: request_def)
  next
    case (Inr ok)
    then have ok using l login_result by blast
    then show ?thesis
      using False l tr1 c1 Inr by (simp add: request_def got_call_def request_options_def)
  qed
qed

text \<open>
  For every client and every daemon, \<open>removeTrackers\<close> calls the URLs that \<open>editTrackers\<close>
  calls.
\<close>

lemma trackers_same_urls:
  "map url (snd (snd (removeTrackers e h urls c tr))) =
   map url (snd (snd (editTrackers e h origUrl newUrl c tr)))"
  by (simp only: removeTrackers_def editTrackers_def returns_true_trace request_urls)

text \<open>
  Claim C7. \<open>removeTrackers\<close> is to call an endpoint of its own. On a client that holds a
  session token it calls \<open>/torrents/editTrackers\<close>, the endpoint that \<open>editTrackers\<close>
  calls, while \<open>addTrackers\<close> calls \<open>/torrents/addTrackers\<close>.
\<close>

theorem removeTrackers_calls_editTrackers:
  "map url (snd (snd (removeTrackers (demo_env None [] []) ''8c21'' ''http://t/announce''
                        authed_client []))) = [''http://d/api/v2/torrents/editTrackers'']
   \<and> map url (snd (snd (editTrackers (demo_env None [] []) ''8c21'' ''http://t/announce''
                        ''http://u/announce'' authed_client []))) =
       [''http://d/api/v2/torrents/editTrackers'']
   \<and> map url (snd (snd (addTrackers (demo_env None [] []) ''8c21'' ''http://t/announce''
                        authed_client []))) = [''http://d/api/v2/torrents/addTrackers'']"
  by (simp add: removeTrackers_def editTrackers_def addTrackers_def returns_true_def request_def
      demo_defs)

section \<open>The labels of \<open>getAllData\<close>\<close>

text \<open>
  The loop never writes to \<open>results.labels\<close>: whenever \<open>getAllData\<close> returns, its list of
  labels is empty.
\<close>

lemma getAllData_loop_labels:
  "getAllData_loop e ts results ls = Inr (results', ls') \<Longrightarrow> labels results' = labels results"
proof (induction ts arbitrary: results ls)
  case Nil
  then show ?case by simp
next
  case (Cons t ts)
  then show ?case
    by (auto simp: Let_def split: sum.splits if_splits)
qed

lemma getAllData_labels_empty:
  "getAllData e c tr = (Inr results, c', tr') \<Longrightarrow> labels results = []"
  by (auto simp: getAllData_def split: prod.splits sum.splits resp_body.splits list.splits
      dest: getAllData_loop_labels)

text \<open>
  Claim C10. The label aggregation is to complete without a runtime error. On the list of
  one torrent of the category \<open>movies\<close>, \<open>getAllData\<close> raises TypeError.
\<close>

theorem getAllData_label_raises:
  "fst (getAllData (demo_env None [demo_torrent ''uploading'' 100 ''movies''] []) authed_client [])
     = Inl TypeError"
proof -
  obtain n where
    n: "normalizeTorrentData (demo_env None [demo_torrent ''uploading'' 100 ''movies''] [])
          (demo_torrent ''uploading'' 100 ''movies'') = Inr n"
    and l: "label n = ''movies''"
    using demo_normalize_ex by blast
  show ?thesis
    by (simp add: getAllData_def demo_list n l Let_def truthy_def labels_get_def inherited_get_def
        Object_prototype_keys_def)
qed

end
